theory Spec2Isabelle
  imports Main
begin

section \<open>The practice store of Material-Math\<close>

text \<open>
  The development follows \<^verbatim>\<open>packages/app/src/store/practice/practice.ts\<close>, a Vuex
  module: a state object, mutations that write its fields, and actions that commit
  mutations, dispatch other actions and talk to the browser's timers.

  JavaScript numbers are modelled as \<^typ>\<open>int\<close>: every number the module computes is
  obtained from the fields by adding or subtracting one, and the fields are meant to hold
  whole seconds and whole counts. The subtraction in the tick is the subtraction of
  integers, so a time left of \<open>0\<close> is followed by \<open>-1\<close>.
\<close>

subsection \<open>Imported types\<close>

text \<open>
  Modelled from the spec: the enums \<^verbatim>\<open>Difficulty\<close>, \<^verbatim>\<open>Operator\<close>,
  \<^verbatim>\<open>PracticeMode\<close> and \<^verbatim>\<open>ChallengeType\<close> and the interface
  \<^verbatim>\<open>ChallengeModel\<close> are imported by the module from files of the engine. The module
  itself names \<open>Difficulty.Normal\<close>, \<open>Operator.Addition\<close>, \<open>Operator.Subtraction\<close>,
  \<open>PracticeMode.TIME\<close> and the fields \<open>latex\<close> and (written \<open>infixForm\<close> here) the
  expression text of a challenge. The remaining members are named after the spec (an
  ordered difficulty, the arithmetic operator symbols, a mode by time and a mode by
  question count). No operation of the module inspects a challenge type; its members
  are told apart by a number, as the members of an enum are at run time.
\<close>

datatype Difficulty = Easy | Normal | Hard

datatype Operator = Addition | Subtraction | Multiplication | Division

datatype PracticeMode = TIME | QUESTIONS

datatype ChallengeType = ChallengeKind nat

text \<open>
  A field of a challenge is \<open>None\<close> when the object has no such property: the state
  starts with the empty object \<^verbatim>\<open>{} as ChallengeModel\<close>.
\<close>

record ChallengeModel =
  latex :: "string option"
  infixForm :: "string option"

record PracticeOptions =
  opt_difficulty :: Difficulty
  opt_operators :: "Operator list"
  opt_challengeTypes :: "ChallengeType list"

subsection \<open>State\<close>

datatype PracticeActions =
  INIT
  | NEW_QUESTION
  | SET_ANSWER
  | CHECK_ANSWER
  | ON_CORRECT
  | ON_INCORRECT
  | SET_PRACTICE_MODE
  | SET_PRACTICE_QUESTION_COUNT
  | SET_PRACTICE_TIME
  | SET_PRACTICE_TIMER_ID
  | FINISH_PRACTICE_SESSION
  | PRACTICE_TIME_TICK

record PracticeState =
  question :: ChallengeModel
  difficulty :: Difficulty
  operators :: "Operator list"
  challengeTypes :: "ChallengeType list"
  answer :: string
  streak :: int
  showingFeedback :: bool
  practiceMode :: PracticeMode
  practiceQuestionCount :: int
  practiceTime :: int
  practiceTimeLeft :: int
  practiceCorrectQuestionCount :: int
  practiceTimerId :: int

text \<open>
  What an action can touch besides the state object: the interval timers of the browser
  that are still running (\<open>intervals\<close>, by id, in the order they were started) and the id
  the next \<^verbatim>\<open>setInterval\<close> returns, the one-shot \<^verbatim>\<open>setTimeout\<close> callbacks that
  have not fired yet, the number of challenges requested from the generator so far, and
  the list of the action handlers that have run, in order.
\<close>

record world =
  store :: PracticeState
  intervals :: "int list"
  nextTimerId :: int
  feedbackTimeouts :: nat
  generated :: nat
  dispatched :: "PracticeActions list"

text \<open>
  The challenge generator \<^verbatim>\<open>generateExpressionChallenge\<close> and the expression evaluator
  \<^verbatim>\<open>evaluate\<close> of mathjs are not part of the module. The generator is a parameter
  that maps the number of the request, the difficulty and the operators to a challenge
  (the number stands for its random choices). The evaluator is a parameter that maps the
  expression text either to the truthiness of its value or to the error it throws.
\<close>

type_synonym generator = "nat \<Rightarrow> Difficulty \<Rightarrow> Operator list \<Rightarrow> ChallengeModel"

datatype error = EvaluateThrew

type_synonym evaluator = "string \<Rightarrow> error + bool"

subsection \<open>Mutations\<close>

definition setQuestion :: "ChallengeModel \<Rightarrow> PracticeState \<Rightarrow> PracticeState" where
  "setQuestion q s = s\<lparr>question := q\<rparr>"

definition setAnswer :: "string \<Rightarrow> PracticeState \<Rightarrow> PracticeState" where
  "setAnswer a s = s\<lparr>answer := a\<rparr>"

definition setStreak :: "int \<Rightarrow> PracticeState \<Rightarrow> PracticeState" where
  "setStreak n s = s\<lparr>streak := n\<rparr>"

definition setPracticeOptions :: "PracticeOptions \<Rightarrow> PracticeState \<Rightarrow> PracticeState" where
  "setPracticeOptions options s =
     s\<lparr>operators := opt_operators options,
       challengeTypes := opt_challengeTypes options,
       difficulty := opt_difficulty options,
       practiceTimeLeft := practiceTime s\<rparr>"

definition setShowingFeedback :: "bool \<Rightarrow> PracticeState \<Rightarrow> PracticeState" where
  "setShowingFeedback b s = s\<lparr>showingFeedback := b\<rparr>"

definition setOperatorEnabled :: "Operator \<Rightarrow> PracticeState \<Rightarrow> PracticeState" where
  "setOperatorEnabled operator s = s\<lparr>operators := operators s @ [operator]\<rparr>"

definition setOperatorDisabled :: "Operator \<Rightarrow> PracticeState \<Rightarrow> PracticeState" where
  "setOperatorDisabled operator s =
     s\<lparr>operators := filter (\<lambda>op. op \<noteq> operator) (operators s)\<rparr>"

definition setPracticeMode :: "PracticeMode \<Rightarrow> PracticeState \<Rightarrow> PracticeState" where
  "setPracticeMode mode s = s\<lparr>practiceMode := mode\<rparr>"

definition setPracticeQuestionCount :: "int \<Rightarrow> PracticeState \<Rightarrow> PracticeState" where
  "setPracticeQuestionCount questionCount s = s\<lparr>practiceQuestionCount := questionCount\<rparr>"

definition setPracticeTime :: "int \<Rightarrow> PracticeState \<Rightarrow> PracticeState" where
  "setPracticeTime time s = s\<lparr>practiceTime := time\<rparr>"

definition setPracticeTimeLeft :: "int \<Rightarrow> PracticeState \<Rightarrow> PracticeState" where
  "setPracticeTimeLeft time s = s\<lparr>practiceTimeLeft := time\<rparr>"

text \<open>The payload \<open>count\<close> is not read: the mutation adds one to the field.\<close>

definition setPracticeCorrectQuestionCount :: "int \<Rightarrow> PracticeState \<Rightarrow> PracticeState" where
  "setPracticeCorrectQuestionCount count s =
     s\<lparr>practiceCorrectQuestionCount := practiceCorrectQuestionCount s + 1\<rparr>"

definition setPracticeTimerId :: "int \<Rightarrow> PracticeState \<Rightarrow> PracticeState" where
  "setPracticeTimerId timerId s = s\<lparr>practiceTimerId := timerId\<rparr>"

definition resetPracticeSession :: "PracticeState \<Rightarrow> PracticeState" where
  "resetPracticeSession s =
     s\<lparr>streak := 0,
       practiceCorrectQuestionCount := 0,
       practiceTimerId := 0,
       practiceTimeLeft := 0\<rparr>"

subsection \<open>The context of an action and the browser's timers\<close>

definition commit :: "(PracticeState \<Rightarrow> PracticeState) \<Rightarrow> world \<Rightarrow> world" where
  "commit m w = w\<lparr>store := m (store w)\<rparr>"

text \<open>Every action handler records that it runs.\<close>

definition entered :: "PracticeActions \<Rightarrow> world \<Rightarrow> world" where
  "entered a w = w\<lparr>dispatched := dispatched w @ [a]\<rparr>"

text \<open>
  \<^verbatim>\<open>setInterval\<close> starts a timer and returns its id. \<^verbatim>\<open>clearInterval\<close> stops the
  timer with the id it is given and does nothing when no timer has that id; the ids of
  timers are greater than zero, so the id \<open>0\<close> never names one.
\<close>

definition setInterval :: "world \<Rightarrow> int \<times> world" where
  "setInterval w =
     (nextTimerId w,
      w\<lparr>intervals := intervals w @ [nextTimerId w], nextTimerId := nextTimerId w + 1\<rparr>)"

definition clearInterval :: "int \<Rightarrow> world \<Rightarrow> world" where
  "clearInterval timerId w =
     (if timerId = 0 then w else w\<lparr>intervals := removeAll timerId (intervals w)\<rparr>)"

definition setTimeout :: "world \<Rightarrow> world" where
  "setTimeout w = w\<lparr>feedbackTimeouts := Suc (feedbackTimeouts w)\<rparr>"

subsection \<open>Actions\<close>

definition newQuestion :: "generator \<Rightarrow> nat \<Rightarrow> Difficulty \<Rightarrow> Operator list \<Rightarrow> ChallengeModel" where
  "newQuestion gen n d ops = gen n d ops"

definition finishPracticeSession :: "world \<Rightarrow> world" where
  "finishPracticeSession w0 =
     (let w = entered FINISH_PRACTICE_SESSION w0;
          w = clearInterval (practiceTimerId (store w)) w
      in commit resetPracticeSession w)"

definition practiceTimeTick :: "world \<Rightarrow> world" where
  "practiceTimeTick w0 =
     (let w = entered PRACTICE_TIME_TICK w0;
          newTimeLeft = practiceTimeLeft (store w) - 1
      in if newTimeLeft = 0 then finishPracticeSession w
         else commit (setPracticeTimeLeft newTimeLeft) w)"

definition init :: "PracticeOptions \<Rightarrow> world \<Rightarrow> world" where
  "init options w0 =
     (let w = entered INIT w0;
          w = commit (setPracticeOptions options) w
      in if practiceMode (store w) = TIME
         then (case setInterval w of
                 (timerId, w') \<Rightarrow> commit (setPracticeTimerId timerId) w')
         else w)"

definition newQuestionAction :: "generator \<Rightarrow> world \<Rightarrow> world" where
  "newQuestionAction gen w0 =
     (let w = entered NEW_QUESTION w0;
          q = newQuestion gen (generated w) (difficulty (store w)) (operators (store w))
      in commit (setQuestion q) (w\<lparr>generated := Suc (generated w)\<rparr>))"

definition setAnswerAction :: "string \<Rightarrow> world \<Rightarrow> world" where
  "setAnswerAction a w0 = commit (setAnswer a) (entered SET_ANSWER w0)"

definition onCorrect :: "generator \<Rightarrow> world \<Rightarrow> world" where
  "onCorrect gen w0 =
     (let w = entered ON_CORRECT w0;
          w = commit (setPracticeCorrectQuestionCount
                        (practiceCorrectQuestionCount (store w) + 1)) w;
          w = commit (setStreak (streak (store w) + 1)) w;
          w = commit (setAnswer []) w;
          w = newQuestionAction gen w;
          w = commit (setShowingFeedback True) w
      in setTimeout w)"

definition onIncorrect :: "world \<Rightarrow> world" where
  "onIncorrect w0 =
     (let w = entered ON_INCORRECT w0;
          w = commit (setStreak 0) w;
          w = commit (setAnswer []) w;
          w = commit (setShowingFeedback True) w
      in setTimeout w)"

text \<open>
  The template literal of \<open>checkAnswer\<close>: the answer, the text \<open>==\<close> between two
  spaces, and the expression of the question, which prints as \<open>undefined\<close> when the
  question object has no such property.
\<close>

definition templateText :: "string option \<Rightarrow> string" where
  "templateText v = (case v of None \<Rightarrow> ''undefined'' | Some t \<Rightarrow> t)"

definition submittedExpression :: "PracticeState \<Rightarrow> string" where
  "submittedExpression s = answer s @ '' == '' @ templateText (infixForm (question s))"

text \<open>
  \<open>checkAnswer\<close> has no handler around the call of the evaluator: what the evaluator
  throws leaves the action. (The two \<^verbatim>\<open>console.log\<close> lines before the call write the
  answer and the expression to the console and touch nothing else; they are left out.)
\<close>

definition checkAnswer :: "evaluator \<Rightarrow> generator \<Rightarrow> world \<Rightarrow> error + world" where
  "checkAnswer ev gen w0 =
     (let w = entered CHECK_ANSWER w0
      in case ev (submittedExpression (store w)) of
           Inl e \<Rightarrow> Inl e
         | Inr b \<Rightarrow> if b then Inr (onCorrect gen w) else Inr (onIncorrect w))"

definition setPracticeModeAction :: "PracticeMode \<Rightarrow> world \<Rightarrow> world" where
  "setPracticeModeAction mode w0 = commit (setPracticeMode mode) (entered SET_PRACTICE_MODE w0)"

definition setPracticeQuestionCountAction :: "int \<Rightarrow> world \<Rightarrow> world" where
  "setPracticeQuestionCountAction questionCount w0 =
     commit (setPracticeQuestionCount questionCount) (entered SET_PRACTICE_QUESTION_COUNT w0)"

definition setPracticeTimeAction :: "int \<Rightarrow> world \<Rightarrow> world" where
  "setPracticeTimeAction time w0 = commit (setPracticeTime time) (entered SET_PRACTICE_TIME w0)"

subsection \<open>The module's initial state\<close>

definition initialState :: PracticeState where
  "initialState =
     \<lparr>question = \<lparr>latex = None, infixForm = None\<rparr>,
      difficulty = Normal,
      operators = [Addition, Subtraction],
      challengeTypes = [],
      answer = [],
      streak = 0,
      showingFeedback = False,
      practiceMode = TIME,
      practiceQuestionCount = 10,
      practiceTime = 10,
      practiceTimeLeft = 0,
      practiceCorrectQuestionCount = 0,
      practiceTimerId = 0\<rparr>"

definition initialWorld :: world where
  "initialWorld =
     \<lparr>store = initialState, intervals = [], nextTimerId = 1, feedbackTimeouts = 0,
      generated = 0, dispatched = []\<rparr>"

subsection \<open>Runs of the module\<close>

text \<open>
  What can happen to a store: one of the actions is dispatched, one of the two operator
  mutations (which have no action) is committed, a running interval timer fires and
  dispatches the tick, or a pending one-shot callback fires and ends the feedback.
\<close>

datatype command =
  Dispatch_init PracticeOptions
  | Dispatch_practiceTimeTick
  | Dispatch_newQuestion
  | Dispatch_setAnswer string
  | Dispatch_checkAnswer
  | Dispatch_onCorrect
  | Dispatch_onIncorrect
  | Dispatch_setPracticeMode PracticeMode
  | Dispatch_setPracticeQuestionCount int
  | Dispatch_setPracticeTime int
  | Dispatch_finishPracticeSession
  | Commit_setOperatorEnabled Operator
  | Commit_setOperatorDisabled Operator
  | IntervalFires int
  | FeedbackTimeoutFires

definition intervalFires :: "int \<Rightarrow> world \<Rightarrow> world" where
  "intervalFires timerId w = (if timerId \<in> set (intervals w) then practiceTimeTick w else w)"

definition feedbackTimeoutFires :: "world \<Rightarrow> world" where
  "feedbackTimeoutFires w =
     (case feedbackTimeouts w of
        0 \<Rightarrow> w
      | Suc n \<Rightarrow> commit (setShowingFeedback False) (w\<lparr>feedbackTimeouts := n\<rparr>))"

text \<open>
  When the evaluator throws, the dispatch of \<open>checkAnswer\<close> fails at its caller; the
  world is as the handler left it at the throw, and the run goes on from there.
\<close>

fun exec :: "evaluator \<Rightarrow> generator \<Rightarrow> command \<Rightarrow> world \<Rightarrow> world" where
  "exec ev gen (Dispatch_init options) w = init options w"
| "exec ev gen Dispatch_practiceTimeTick w = practiceTimeTick w"
| "exec ev gen Dispatch_newQuestion w = newQuestionAction gen w"
| "exec ev gen (Dispatch_setAnswer a) w = setAnswerAction a w"
| "exec ev gen Dispatch_checkAnswer w =
     (case checkAnswer ev gen w of Inl e \<Rightarrow> entered CHECK_ANSWER w | Inr w' \<Rightarrow> w')"
| "exec ev gen Dispatch_onCorrect w = onCorrect gen w"
| "exec ev gen Dispatch_onIncorrect w = onIncorrect w"
| "exec ev gen (Dispatch_setPracticeMode mode) w = setPracticeModeAction mode w"
| "exec ev gen (Dispatch_setPracticeQuestionCount n) w = setPracticeQuestionCountAction n w"
| "exec ev gen (Dispatch_setPracticeTime t) w = setPracticeTimeAction t w"
| "exec ev gen Dispatch_finishPracticeSession w = finishPracticeSession w"
| "exec ev gen (Commit_setOperatorEnabled operator) w = commit (setOperatorEnabled operator) w"
| "exec ev gen (Commit_setOperatorDisabled operator) w = commit (setOperatorDisabled operator) w"
| "exec ev gen (IntervalFires timerId) w = intervalFires timerId w"
| "exec ev gen FeedbackTimeoutFires w = feedbackTimeoutFires w"

fun run :: "evaluator \<Rightarrow> generator \<Rightarrow> command list \<Rightarrow> world \<Rightarrow> world" where
  "run ev gen [] w = w"
| "run ev gen (c # cs) w = run ev gen cs (exec ev gen c w)"

text \<open>How often the termination transition has run.\<close>

definition terminations :: "world \<Rightarrow> nat" where
  "terminations w = count_list (dispatched w) FINISH_PRACTICE_SESSION"

subsection \<open>Fixtures for concrete runs\<close>

definition sampleOptions :: PracticeOptions where
  "sampleOptions =
     \<lparr>opt_difficulty = Normal, opt_operators = [Addition], opt_challengeTypes = []\<rparr>"

definition sampleChallenge :: ChallengeModel where
  "sampleChallenge = \<lparr>latex = Some ''1 + 1'', infixForm = Some ''1 + 1''\<rparr>"

definition sampleGenerator :: generator where
  "sampleGenerator n d ops = sampleChallenge"

text \<open>
  An evaluator for concrete runs: it throws on an answer that ends in an operator, finds
  the answer \<open>2\<close> equal to \<open>1 + 1\<close>, and finds every other expression false.
\<close>

definition sampleEvaluate :: evaluator where
  "sampleEvaluate e =
     (if e = ''1 + == 1 + 1'' then Inl EvaluateThrew
      else Inr (e = ''2 == 1 + 1''))"

subsection \<open>Sequences of submissions and of commands\<close>

text \<open>
  A submission sets the answer and dispatches \<open>checkAnswer\<close>; a sequence of submissions
  stops at the first one on which the evaluator throws.
\<close>

fun submitAll :: "evaluator \<Rightarrow> generator \<Rightarrow> string list \<Rightarrow> world \<Rightarrow> error + world" where
  "submitAll ev gen [] w = Inr w"
| "submitAll ev gen (a # as) w =
     (case checkAnswer ev gen (setAnswerAction a w) of
        Inl e \<Rightarrow> Inl e
      | Inr w' \<Rightarrow> submitAll ev gen as w')"


text \<open>
  All submissions of a sequence are judged correct: on each, the evaluator returns a
  truthy value for the submitted expression, so that \<open>checkAnswer\<close> goes on with
  \<open>onCorrect\<close>.
\<close>

fun allJudgedCorrect :: "evaluator \<Rightarrow> generator \<Rightarrow> string list \<Rightarrow> world \<Rightarrow> bool" where
  "allJudgedCorrect ev gen [] w = True"
| "allJudgedCorrect ev gen (a # as) w =
     (ev (submittedExpression (store (setAnswerAction a w))) = Inr True
      \<and> allJudgedCorrect ev gen as (onCorrect gen (entered CHECK_ANSWER (setAnswerAction a w))))"




text \<open>
  A command respects the time left when it is not a change of the practice time, or
  changes it to a value that is neither negative nor below the time left. A run is
  admissible when each of its commands respects the time left in the world it meets.
\<close>

fun timeChangeAllowed :: "command \<Rightarrow> world \<Rightarrow> bool" where
  "timeChangeAllowed (Dispatch_setPracticeTime t) w = (0 \<le> t \<and> practiceTimeLeft (store w) \<le> t)"
| "timeChangeAllowed c w = True"

fun admissible :: "evaluator \<Rightarrow> generator \<Rightarrow> command list \<Rightarrow> world \<Rightarrow> bool" where
  "admissible ev gen [] w = True"
| "admissible ev gen (c # cs) w =
     (timeChangeAllowed c w \<and> admissible ev gen cs (exec ev gen c w))"

definition timeInv :: "world \<Rightarrow> bool" where
  "timeInv w = (practiceTimeLeft (store w) \<le> practiceTime (store w) \<and> 0 \<le> practiceTime (store w))"

lemmas mutation_defs =
  setQuestion_def setAnswer_def setStreak_def setPracticeOptions_def setShowingFeedback_def
  setOperatorEnabled_def setOperatorDisabled_def setPracticeMode_def
  setPracticeQuestionCount_def setPracticeTime_def setPracticeTimeLeft_def
  setPracticeCorrectQuestionCount_def setPracticeTimerId_def resetPracticeSession_def

lemmas context_defs =
  commit_def entered_def setInterval_def clearInterval_def setTimeout_def

lemmas action_defs =
  newQuestion_def finishPracticeSession_def practiceTimeTick_def init_def
  newQuestionAction_def setAnswerAction_def onCorrect_def onIncorrect_def
  setPracticeModeAction_def setPracticeQuestionCountAction_def setPracticeTimeAction_def
  intervalFires_def feedbackTimeoutFires_def

lemmas fixture_defs =
  sampleOptions_def sampleChallenge_def sampleGenerator_def sampleEvaluate_def
  initialState_def initialWorld_def templateText_def submittedExpression_def

lemmas all_defs = mutation_defs context_defs action_defs Let_def

section \<open>Configuration\<close>

text \<open>
  A concrete run against C1 as the spec words it (after \<open>init\<close> the streak and the count
  of correct answers are zero): a session is configured, one answer is accepted, and the
  session is configured again without having been finished. Both counters still hold
  \<open>1\<close>.
\<close>

theorem init_counters_counterexample:
  "streak (store (init sampleOptions (onCorrect sampleGenerator (init sampleOptions initialWorld)))) = 1
   \<and> practiceCorrectQuestionCount
        (store (init sampleOptions (onCorrect sampleGenerator (init sampleOptions initialWorld)))) = 1"
  by (simp add: all_defs fixture_defs)

text \<open>
  C1, amended: for every world, right after \<open>init\<close> the time left equals the practice
  time, which \<open>init\<close> does not change. \<open>init\<close> leaves the streak and the count of
  correct answers as they were; they are zero after \<open>init\<close> when it runs on the initial
  state of the module or right after \<open>finishPracticeSession\<close>, which is where the two
  counters are reset.
\<close>

theorem init_effect:
  "practiceTimeLeft (store (init options w)) = practiceTime (store (init options w))
   \<and> practiceTime (store (init options w)) = practiceTime (store w)
   \<and> streak (store (init options w)) = streak (store w)
   \<and> practiceCorrectQuestionCount (store (init options w)) = practiceCorrectQuestionCount (store w)
   \<and> streak (store (init options (finishPracticeSession w))) = 0
   \<and> practiceCorrectQuestionCount (store (init options (finishPracticeSession w))) = 0
   \<and> streak (store (init options initialWorld)) = 0
   \<and> practiceCorrectQuestionCount (store (init options initialWorld)) = 0"
  by (simp add: all_defs fixture_defs split: prod.splits)

section \<open>Answers\<close>

lemma store_setAnswerAction:
  "streak (store (setAnswerAction a w)) = streak (store w)"
  "practiceCorrectQuestionCount (store (setAnswerAction a w)) = practiceCorrectQuestionCount (store w)"
  by (simp_all add: setAnswerAction_def commit_def entered_def setAnswer_def)

lemma onCorrect_store:
  "streak (store (onCorrect gen w)) = streak (store w) + 1"
  "practiceCorrectQuestionCount (store (onCorrect gen w)) = practiceCorrectQuestionCount (store w) + 1"
  "answer (store (onCorrect gen w)) = []"
  "question (store (onCorrect gen w)) = gen (generated w) (difficulty (store w)) (operators (store w))"
  "generated (onCorrect gen w) = Suc (generated w)"
  by (simp_all add: all_defs)

lemma onIncorrect_store:
  "streak (store (onIncorrect w)) = 0"
  "practiceCorrectQuestionCount (store (onIncorrect w)) = practiceCorrectQuestionCount (store w)"
  "answer (store (onIncorrect w)) = []"
  "question (store (onIncorrect w)) = question (store w)"
  "generated (onIncorrect w) = generated w"
  by (simp_all add: all_defs)

lemma entered_fields:
  "store (entered a w) = store w" "generated (entered a w) = generated w"
  "intervals (entered a w) = intervals w"
  by (simp_all add: entered_def)

lemma checkAnswer_correct:
  "ev (submittedExpression (store w)) = Inr True \<Longrightarrow>
   checkAnswer ev gen w = Inr (onCorrect gen (entered CHECK_ANSWER w))"
  by (simp add: checkAnswer_def entered_def Let_def)

lemma checkAnswer_incorrect:
  "ev (submittedExpression (store w)) = Inr False \<Longrightarrow>
   checkAnswer ev gen w = Inr (onIncorrect (entered CHECK_ANSWER w))"
  by (simp add: checkAnswer_def entered_def Let_def)

lemma submitAll_correct:
  "allJudgedCorrect ev gen as w \<Longrightarrow>
   \<exists>w'. submitAll ev gen as w = Inr w'
     \<and> streak (store w') = streak (store w) + int (length as)
     \<and> practiceCorrectQuestionCount (store w')
         = practiceCorrectQuestionCount (store w) + int (length as)"
proof (induction as arbitrary: w)
  case Nil
  then show ?case by simp
next
  case (Cons a as)
  let ?v = "onCorrect gen (entered CHECK_ANSWER (setAnswerAction a w))"
  from Cons.prems have j: "ev (submittedExpression (store (setAnswerAction a w))) = Inr True"
    and rest: "allJudgedCorrect ev gen as ?v"
    by simp_all
  from Cons.IH [OF rest] obtain w' where w': "submitAll ev gen as ?v = Inr w'"
    "streak (store w') = streak (store ?v) + int (length as)"
    "practiceCorrectQuestionCount (store w')
       = practiceCorrectQuestionCount (store ?v) + int (length as)"
    by blast
  from checkAnswer_correct [of ev "setAnswerAction a w" gen] j w'(1) have "submitAll ev gen (a # as) w = Inr w'"
    by simp
  with w'(2,3) show ?case
    by (simp add: onCorrect_store entered_fields store_setAnswerAction)
qed

text \<open>
  C2: from a world whose streak and count of correct answers are zero, after a sequence
  of submissions that are all judged correct, of any length, the streak and the count
  both equal the number of submissions. In every world \<open>v\<close>, a submission judged
  incorrect sets the streak to zero, leaves the count and the question as they are and
  clears the answer; a submission judged correct adds one to both counters, clears the
  answer and replaces the question by the next challenge of the generator.
\<close>

theorem streak_and_correct_count:
  assumes "streak (store w) = 0" and "practiceCorrectQuestionCount (store w) = 0"
    and "allJudgedCorrect ev gen as w"
  shows "(\<exists>w'. submitAll ev gen as w = Inr w'
            \<and> streak (store w') = int (length as)
            \<and> practiceCorrectQuestionCount (store w') = int (length as))
       \<and> (ev (submittedExpression (store v)) = Inr False \<longrightarrow>
            (\<exists>v'. checkAnswer ev gen v = Inr v'
               \<and> streak (store v') = 0
               \<and> practiceCorrectQuestionCount (store v') = practiceCorrectQuestionCount (store v)
               \<and> answer (store v') = []
               \<and> question (store v') = question (store v)
               \<and> generated v' = generated v))
       \<and> (ev (submittedExpression (store v)) = Inr True \<longrightarrow>
            (\<exists>v'. checkAnswer ev gen v = Inr v'
               \<and> streak (store v') = streak (store v) + 1
               \<and> practiceCorrectQuestionCount (store v') = practiceCorrectQuestionCount (store v) + 1
               \<and> answer (store v') = []
               \<and> question (store v') = gen (generated v) (difficulty (store v)) (operators (store v))
               \<and> generated v' = Suc (generated v)))"
proof -
  from submitAll_correct [OF assms(3)] assms(1,2)
  have A: "\<exists>w'. submitAll ev gen as w = Inr w'
            \<and> streak (store w') = int (length as)
            \<and> practiceCorrectQuestionCount (store w') = int (length as)"
    by simp
  have B: "ev (submittedExpression (store v)) = Inr False \<longrightarrow>
            (\<exists>v'. checkAnswer ev gen v = Inr v'
               \<and> streak (store v') = 0
               \<and> practiceCorrectQuestionCount (store v') = practiceCorrectQuestionCount (store v)
               \<and> answer (store v') = []
               \<and> question (store v') = question (store v)
               \<and> generated v' = generated v)"
    by (simp add: checkAnswer_incorrect onIncorrect_store entered_fields)
  have C: "ev (submittedExpression (store v)) = Inr True \<longrightarrow>
            (\<exists>v'. checkAnswer ev gen v = Inr v'
               \<and> streak (store v') = streak (store v) + 1
               \<and> practiceCorrectQuestionCount (store v') = practiceCorrectQuestionCount (store v) + 1
               \<and> answer (store v') = []
               \<and> question (store v') = gen (generated v) (difficulty (store v)) (operators (store v))
               \<and> generated v' = Suc (generated v))"
    by (simp add: checkAnswer_correct onCorrect_store entered_fields)
  from A B C show ?thesis by blast
qed

theorem streak_and_correct_count_witness:
  "streak (store (newQuestionAction sampleGenerator initialWorld)) = 0
   \<and> practiceCorrectQuestionCount (store (newQuestionAction sampleGenerator initialWorld)) = 0
   \<and> allJudgedCorrect sampleEvaluate sampleGenerator [''2'', ''2'']
         (newQuestionAction sampleGenerator initialWorld)
   \<and> (\<exists>w'. submitAll sampleEvaluate sampleGenerator [''2'', ''2'']
               (newQuestionAction sampleGenerator initialWorld) = Inr w'
          \<and> streak (store w') = 2 \<and> practiceCorrectQuestionCount (store w') = 2)
   \<and> sampleEvaluate (submittedExpression
         (store (setAnswerAction ''3'' (newQuestionAction sampleGenerator initialWorld)))) = Inr False
   \<and> (\<exists>v'. checkAnswer sampleEvaluate sampleGenerator
               (setAnswerAction ''3'' (newQuestionAction sampleGenerator initialWorld)) = Inr v'
          \<and> streak (store v') = 0 \<and> practiceCorrectQuestionCount (store v') = 0
          \<and> question (store v') = sampleChallenge)"
proof -
  let ?w = "newQuestionAction sampleGenerator initialWorld"
  let ?v = "setAnswerAction ''3'' ?w"
  have h1: "streak (store ?w) = 0" and h2: "practiceCorrectQuestionCount (store ?w) = 0"
    by (simp_all add: all_defs fixture_defs)
  have h3: "allJudgedCorrect sampleEvaluate sampleGenerator [''2'', ''2''] ?w"
    by (simp add: all_defs fixture_defs)
  have h4: "sampleEvaluate (submittedExpression (store ?v)) = Inr False"
    by (simp add: all_defs fixture_defs)
  have q: "practiceCorrectQuestionCount (store ?v) = 0" "question (store ?v) = sampleChallenge"
    by (simp_all add: all_defs fixture_defs)
  note inst = streak_and_correct_count [OF h1 h2 h3, of ?v]
  from inst have "\<exists>w'. submitAll sampleEvaluate sampleGenerator [''2'', ''2''] ?w = Inr w'
          \<and> streak (store w') = int (length [''2'', ''2''])
          \<and> practiceCorrectQuestionCount (store w') = int (length [''2'', ''2''])"
    by blast
  then have A: "\<exists>w'. submitAll sampleEvaluate sampleGenerator [''2'', ''2''] ?w = Inr w'
          \<and> streak (store w') = 2 \<and> practiceCorrectQuestionCount (store w') = 2"
    by (simp del: submitAll.simps)
  from inst h4 obtain v' where "checkAnswer sampleEvaluate sampleGenerator ?v = Inr v'"
    "streak (store v') = 0"
    "practiceCorrectQuestionCount (store v') = practiceCorrectQuestionCount (store ?v)"
    "question (store v') = question (store ?v)"
    by blast
  with q have B: "\<exists>v'. checkAnswer sampleEvaluate sampleGenerator ?v = Inr v'
          \<and> streak (store v') = 0 \<and> practiceCorrectQuestionCount (store v') = 0
          \<and> question (store v') = sampleChallenge"
    by simp
  from h1 h2 h3 h4 A B show ?thesis by blast
qed

text \<open>
  A concrete run against C5 as the spec words it (a failure of the verifier resolves to
  the incorrect transition): the answer \<open>1 +\<close> to the question \<open>1 + 1\<close> makes the
  evaluator throw, and the dispatch of \<open>checkAnswer\<close> fails with what was thrown.
\<close>

theorem checkAnswer_throws_counterexample:
  "checkAnswer sampleEvaluate sampleGenerator
     (setAnswerAction ''1 +'' (newQuestionAction sampleGenerator initialWorld)) = Inl EvaluateThrew"
  by (simp add: checkAnswer_def all_defs fixture_defs)

text \<open>
  C5, amended: \<open>checkAnswer\<close> goes on with \<open>onIncorrect\<close> when the evaluator returns a
  falsy value and with \<open>onCorrect\<close> when it returns a truthy one. When the evaluator
  throws on the submitted text, nothing catches it: the dispatch fails with the same
  error and neither transition takes place.
\<close>

theorem checkAnswer_outcomes:
  "(ev (submittedExpression (store w)) = Inl e \<longrightarrow> checkAnswer ev gen w = Inl e)
   \<and> (ev (submittedExpression (store w)) = Inr False \<longrightarrow>
        checkAnswer ev gen w = Inr (onIncorrect (entered CHECK_ANSWER w)))
   \<and> (ev (submittedExpression (store w)) = Inr True \<longrightarrow>
        checkAnswer ev gen w = Inr (onCorrect gen (entered CHECK_ANSWER w)))"
  by (simp add: checkAnswer_def entered_def Let_def)

theorem checkAnswer_outcomes_witness:
  "sampleEvaluate (submittedExpression
      (store (setAnswerAction ''1 +'' (newQuestionAction sampleGenerator initialWorld))))
     = Inl EvaluateThrew
   \<and> checkAnswer sampleEvaluate sampleGenerator
        (setAnswerAction ''1 +'' (newQuestionAction sampleGenerator initialWorld))
     = Inl EvaluateThrew
   \<and> sampleEvaluate (submittedExpression
      (store (setAnswerAction ''3'' (newQuestionAction sampleGenerator initialWorld))))
     = Inr False
   \<and> checkAnswer sampleEvaluate sampleGenerator
        (setAnswerAction ''3'' (newQuestionAction sampleGenerator initialWorld))
     = Inr (onIncorrect (entered CHECK_ANSWER
              (setAnswerAction ''3'' (newQuestionAction sampleGenerator initialWorld))))
   \<and> sampleEvaluate (submittedExpression
      (store (setAnswerAction ''2'' (newQuestionAction sampleGenerator initialWorld))))
     = Inr True
   \<and> checkAnswer sampleEvaluate sampleGenerator
        (setAnswerAction ''2'' (newQuestionAction sampleGenerator initialWorld))
     = Inr (onCorrect sampleGenerator (entered CHECK_ANSWER
              (setAnswerAction ''2'' (newQuestionAction sampleGenerator initialWorld))))"
proof -
  let ?w = "newQuestionAction sampleGenerator initialWorld"
  have e1: "sampleEvaluate (submittedExpression (store (setAnswerAction ''1 +'' ?w)))
              = Inl EvaluateThrew"
    by (simp add: all_defs fixture_defs)
  have e2: "sampleEvaluate (submittedExpression (store (setAnswerAction ''3'' ?w))) = Inr False"
    by (simp add: all_defs fixture_defs)
  have e3: "sampleEvaluate (submittedExpression (store (setAnswerAction ''2'' ?w))) = Inr True"
    by (simp add: all_defs fixture_defs)
  from e1 checkAnswer_outcomes
         [of sampleEvaluate "setAnswerAction ''1 +'' ?w" EvaluateThrew sampleGenerator]
  have r1: "checkAnswer sampleEvaluate sampleGenerator (setAnswerAction ''1 +'' ?w)
              = Inl EvaluateThrew"
    by blast
  from e2 checkAnswer_outcomes
         [of sampleEvaluate "setAnswerAction ''3'' ?w" EvaluateThrew sampleGenerator]
  have r2: "checkAnswer sampleEvaluate sampleGenerator (setAnswerAction ''3'' ?w)
              = Inr (onIncorrect (entered CHECK_ANSWER (setAnswerAction ''3'' ?w)))"
    by blast
  from e3 checkAnswer_outcomes
         [of sampleEvaluate "setAnswerAction ''2'' ?w" EvaluateThrew sampleGenerator]
  have r3: "checkAnswer sampleEvaluate sampleGenerator (setAnswerAction ''2'' ?w)
              = Inr (onCorrect sampleGenerator (entered CHECK_ANSWER (setAnswerAction ''2'' ?w)))"
    by blast
  from e1 e2 e3 r1 r2 r3 show ?thesis by blast
qed

section \<open>The countdown\<close>

text \<open>
  A concrete run against C3 as the spec words it (a session configured with a practice
  time of zero terminates on the first tick): the practice time is set to \<open>0\<close>, the
  session is configured by time, and the timer ticks once. The time left is \<open>-1\<close>, the
  termination transition has not run and the timer is still running.
\<close>

theorem zero_time_counterexample:
  "practiceTimeLeft (store (init sampleOptions (setPracticeTimeAction 0 initialWorld))) = 0
   \<and> practiceTimeLeft
        (store (practiceTimeTick (init sampleOptions (setPracticeTimeAction 0 initialWorld)))) = - 1
   \<and> terminations (practiceTimeTick (init sampleOptions (setPracticeTimeAction 0 initialWorld))) = 0
   \<and> intervals (practiceTimeTick (init sampleOptions (setPracticeTimeAction 0 initialWorld))) = [1]"
  by (simp add: terminations_def all_defs fixture_defs)

lemma tick_continues:
  "practiceTimeLeft (store w) \<noteq> 1 \<Longrightarrow>
   practiceTimeTick w =
     commit (setPracticeTimeLeft (practiceTimeLeft (store w) - 1)) (entered PRACTICE_TIME_TICK w)"
  by (simp add: practiceTimeTick_def entered_def Let_def)

lemma tick_finishes:
  "practiceTimeLeft (store w) = 1 \<Longrightarrow>
   practiceTimeTick w = finishPracticeSession (entered PRACTICE_TIME_TICK w)"
  by (simp add: practiceTimeTick_def entered_def Let_def)

lemma ticks_before_zero:
  "practiceTimeLeft (store w) = int (Suc n) \<Longrightarrow> k \<le> n \<Longrightarrow>
   practiceTimeLeft (store ((practiceTimeTick ^^ k) w)) = int (Suc n) - int k
   \<and> terminations ((practiceTimeTick ^^ k) w) = terminations w
   \<and> intervals ((practiceTimeTick ^^ k) w) = intervals w
   \<and> practiceTimerId (store ((practiceTimeTick ^^ k) w)) = practiceTimerId (store w)"
proof (induction k)
  case 0
  then show ?case by simp
next
  case (Suc k)
  let ?v = "(practiceTimeTick ^^ k) w"
  from Suc have IH: "practiceTimeLeft (store ?v) = int (Suc n) - int k"
    "terminations ?v = terminations w" "intervals ?v = intervals w"
    "practiceTimerId (store ?v) = practiceTimerId (store w)"
    by simp_all
  from IH(1) Suc.prems(2) have "practiceTimeLeft (store ?v) \<noteq> 1" by simp
  then have "practiceTimeTick ?v =
      commit (setPracticeTimeLeft (practiceTimeLeft (store ?v) - 1)) (entered PRACTICE_TIME_TICK ?v)"
    by (rule tick_continues)
  with IH show ?case
    by (simp add: terminations_def commit_def entered_def setPracticeTimeLeft_def)
qed

text \<open>
  C3, amended: each tick subtracts one from the time left before it compares with zero,
  and the session terminates on the tick whose subtraction gives exactly zero. So from a
  time left of \<open>n + 1\<close> seconds, the first \<open>n\<close> ticks store the decremented time and
  neither terminate the session nor stop a timer, and tick \<open>n + 1\<close> runs the termination
  transition, which stops the stored timer and leaves a time left of zero.
\<close>

theorem tick_countdown:
  assumes "practiceTimeLeft (store w) = int (Suc n)"
  shows "(\<forall>k\<le>n. practiceTimeLeft (store ((practiceTimeTick ^^ k) w)) = int (Suc n) - int k
            \<and> terminations ((practiceTimeTick ^^ k) w) = terminations w
            \<and> intervals ((practiceTimeTick ^^ k) w) = intervals w)
       \<and> terminations ((practiceTimeTick ^^ Suc n) w) = Suc (terminations w)
       \<and> practiceTimeLeft (store ((practiceTimeTick ^^ Suc n) w)) = 0
       \<and> intervals ((practiceTimeTick ^^ Suc n) w)
           = intervals (clearInterval (practiceTimerId (store w)) w)"
proof -
  let ?v = "(practiceTimeTick ^^ n) w"
  from ticks_before_zero [OF assms, of n]
  have v: "practiceTimeLeft (store ?v) = 1" "terminations ?v = terminations w"
    "intervals ?v = intervals w" "practiceTimerId (store ?v) = practiceTimerId (store w)"
    by simp_all
  have "(practiceTimeTick ^^ Suc n) w = finishPracticeSession (entered PRACTICE_TIME_TICK ?v)"
    using tick_finishes [of ?v] v(1) by simp
  with v have "terminations ((practiceTimeTick ^^ Suc n) w) = Suc (terminations w)
       \<and> practiceTimeLeft (store ((practiceTimeTick ^^ Suc n) w)) = 0
       \<and> intervals ((practiceTimeTick ^^ Suc n) w)
           = intervals (clearInterval (practiceTimerId (store w)) w)"
    by (simp add: terminations_def finishPracticeSession_def context_defs
          resetPracticeSession_def Let_def)
  with ticks_before_zero [OF assms] show ?thesis by blast
qed

theorem tick_countdown_witness:
  "practiceTimeLeft (store (init sampleOptions (setPracticeTimeAction 2 initialWorld))) = int (Suc 1)
   \<and> terminations (practiceTimeTick (init sampleOptions (setPracticeTimeAction 2 initialWorld))) = 0
   \<and> terminations ((practiceTimeTick ^^ Suc 1)
        (init sampleOptions (setPracticeTimeAction 2 initialWorld))) = 1
   \<and> intervals ((practiceTimeTick ^^ Suc 1)
        (init sampleOptions (setPracticeTimeAction 2 initialWorld))) = []"
proof -
  let ?w = "init sampleOptions (setPracticeTimeAction 2 initialWorld)"
  have h: "practiceTimeLeft (store ?w) = int (Suc 1)"
    by (simp add: all_defs fixture_defs)
  have t: "terminations ?w = 0" "intervals (clearInterval (practiceTimerId (store ?w)) ?w) = []"
    by (simp_all add: terminations_def all_defs fixture_defs)
  from tick_countdown [OF h] have
    "terminations ((practiceTimeTick ^^ 1) ?w) = terminations ?w"
    "terminations ((practiceTimeTick ^^ Suc 1) ?w) = Suc (terminations ?w)"
    "intervals ((practiceTimeTick ^^ Suc 1) ?w)
       = intervals (clearInterval (practiceTimerId (store ?w)) ?w)"
    by blast+
  with h t show ?thesis by simp
qed

text \<open>
  C4: the spec asks for at most one running tick source for each session, every
  operation that starts a timer stopping the stored one first. \<open>init\<close> starts a timer
  by time without stopping the one whose id the state holds. Configured twice from the
  initial state, the module has two running timers; the state holds the id of the
  second only, so that \<open>finishPracticeSession\<close> stops the second and the first keeps
  ticking.
\<close>

theorem reinit_leaves_two_timers:
  "intervals (init sampleOptions (init sampleOptions initialWorld)) = [1, 2]
   \<and> practiceTimerId (store (init sampleOptions (init sampleOptions initialWorld))) = 2
   \<and> intervals (finishPracticeSession (init sampleOptions (init sampleOptions initialWorld))) = [1]"
  by (simp add: all_defs fixture_defs)

text \<open>
  A concrete run against C6 as the spec words it (the time left never exceeds the
  practice time, also when the practice time is set during a session): a session is
  configured with the default of ten seconds, then the practice time is set to three.
\<close>

theorem time_left_counterexample:
  "practiceTimeLeft (store (setPracticeTimeAction 3 (init sampleOptions initialWorld))) = 10
   \<and> practiceTime (store (setPracticeTimeAction 3 (init sampleOptions initialWorld))) = 3
   \<and> \<not> practiceTimeLeft (store (setPracticeTimeAction 3 (init sampleOptions initialWorld)))
         \<le> practiceTime (store (setPracticeTimeAction 3 (init sampleOptions initialWorld)))"
  by (simp add: all_defs fixture_defs)

lemma timeInv_finish: "timeInv w \<Longrightarrow> timeInv (finishPracticeSession w)"
  by (simp add: timeInv_def all_defs)

lemma timeInv_tick: "timeInv w \<Longrightarrow> timeInv (practiceTimeTick w)"
  by (simp add: timeInv_def all_defs)

lemma timeInv_onCorrect: "timeInv w \<Longrightarrow> timeInv (onCorrect gen w)"
  by (simp add: timeInv_def all_defs)

lemma timeInv_onIncorrect: "timeInv w \<Longrightarrow> timeInv (onIncorrect w)"
  by (simp add: timeInv_def all_defs)

lemma timeInv_exec:
  "timeInv w \<Longrightarrow> timeChangeAllowed c w \<Longrightarrow> timeInv (exec ev gen c w)"
proof (cases c)
  case Dispatch_checkAnswer
  assume "timeInv w"
  then have "timeInv (entered CHECK_ANSWER w)"
    by (simp add: timeInv_def entered_def)
  then show ?thesis using Dispatch_checkAnswer
    by (auto simp: checkAnswer_def Let_def timeInv_onCorrect timeInv_onIncorrect split: sum.splits)
qed (auto simp: timeInv_finish timeInv_tick timeInv_onCorrect timeInv_onIncorrect
       intervalFires_def, auto simp: timeInv_def all_defs split: nat.splits)

lemma timeInv_run:
  "timeInv w \<Longrightarrow> admissible ev gen cs w \<Longrightarrow> timeInv (run ev gen cs w)"
  by (induction cs arbitrary: w) (auto simp: timeInv_exec)

text \<open>
  C6, amended: the time left is at most the practice time in every world reached from
  the initial one by an admissible run, one in which every change of the practice time
  sets a value that is neither negative nor below the time left of that moment (as when
  the time is set between sessions). Every other operation preserves the bound;
  \<open>setPracticeTime\<close> writes the practice time only and does not look at the time left.
\<close>

theorem time_left_bounded:
  assumes "admissible ev gen cs initialWorld"
  shows "practiceTimeLeft (store (run ev gen cs initialWorld))
           \<le> practiceTime (store (run ev gen cs initialWorld))"
proof -
  have "timeInv initialWorld"
    by (simp add: timeInv_def initialWorld_def initialState_def)
  from timeInv_run [OF this assms] show ?thesis
    by (simp add: timeInv_def)
qed

theorem time_left_bounded_witness:
  "admissible sampleEvaluate sampleGenerator
     [Dispatch_setPracticeTime 5, Dispatch_init sampleOptions, Dispatch_practiceTimeTick,
      Dispatch_setPracticeTime 4, IntervalFires 1] initialWorld
   \<and> practiceTimeLeft (store (run sampleEvaluate sampleGenerator
       [Dispatch_setPracticeTime 5, Dispatch_init sampleOptions, Dispatch_practiceTimeTick,
        Dispatch_setPracticeTime 4, IntervalFires 1] initialWorld))
      \<le> practiceTime (store (run sampleEvaluate sampleGenerator
       [Dispatch_setPracticeTime 5, Dispatch_init sampleOptions, Dispatch_practiceTimeTick,
        Dispatch_setPracticeTime 4, IntervalFires 1] initialWorld))
   \<and> practiceTimeLeft (store (run sampleEvaluate sampleGenerator
       [Dispatch_setPracticeTime 5, Dispatch_init sampleOptions, Dispatch_practiceTimeTick,
        Dispatch_setPracticeTime 4, IntervalFires 1] initialWorld)) = 3"
proof -
  let ?cs = "[Dispatch_setPracticeTime 5, Dispatch_init sampleOptions, Dispatch_practiceTimeTick,
      Dispatch_setPracticeTime 4, IntervalFires 1]"
  have h: "admissible sampleEvaluate sampleGenerator ?cs initialWorld"
    by (simp add: all_defs fixture_defs)
  have v: "practiceTimeLeft (store (run sampleEvaluate sampleGenerator ?cs initialWorld)) = 3"
    by (simp add: all_defs fixture_defs)
  from h v time_left_bounded [OF h] show ?thesis by blast
qed

section \<open>Termination\<close>

text \<open>
  C7: \<open>finishPracticeSession\<close> is idempotent. In every world, running it twice gives
  the state and the running timers that running it once gives; the two worlds differ
  only in the record of the handlers that ran, which lists the second run. The reset of
  an already reset state changes nothing, stopping a timer a second time changes
  nothing, and stopping the id \<open>0\<close> of no timer changes nothing. The handler has no
  failing branch.
\<close>

theorem finish_idempotent:
  "store (finishPracticeSession (finishPracticeSession w)) = store (finishPracticeSession w)
   \<and> intervals (finishPracticeSession (finishPracticeSession w)) = intervals (finishPracticeSession w)
   \<and> finishPracticeSession (finishPracticeSession w) =
       (finishPracticeSession w)\<lparr>dispatched :=
          dispatched (finishPracticeSession w) @ [FINISH_PRACTICE_SESSION]\<rparr>
   \<and> resetPracticeSession (resetPracticeSession s) = resetPracticeSession s
   \<and> clearInterval t (clearInterval t w) = clearInterval t w
   \<and> clearInterval 0 w = w"
  by (simp add: all_defs)

text \<open>
  C8: in every world, \<open>finishPracticeSession\<close> sets the streak, the count of correct
  answers, the timer id and the time left to zero and leaves the difficulty, the
  operators, the challenge types, the mode, the question count and the practice time as
  they are.
\<close>

theorem finish_effect:
  "streak (store (finishPracticeSession w)) = 0
   \<and> practiceCorrectQuestionCount (store (finishPracticeSession w)) = 0
   \<and> practiceTimerId (store (finishPracticeSession w)) = 0
   \<and> practiceTimeLeft (store (finishPracticeSession w)) = 0
   \<and> difficulty (store (finishPracticeSession w)) = difficulty (store w)
   \<and> operators (store (finishPracticeSession w)) = operators (store w)
   \<and> challengeTypes (store (finishPracticeSession w)) = challengeTypes (store w)
   \<and> practiceMode (store (finishPracticeSession w)) = practiceMode (store w)
   \<and> practiceQuestionCount (store (finishPracticeSession w)) = practiceQuestionCount (store w)
   \<and> practiceTime (store (finishPracticeSession w)) = practiceTime (store w)"
  by (simp add: all_defs)










section \<open>Operators\<close>

text \<open>
  C10: the operators are a list, not a set. For every state and every operator that the
  list already holds, \<open>setOperatorEnabled\<close> appends one more occurrence of it, so that
  the list holds it at least twice, and \<open>setOperatorDisabled\<close> after that removes every
  occurrence at once, leaving the other operators of the original list in order.
\<close>

theorem operators_not_a_set:
  assumes "op \<in> set (operators s)"
  shows "operators (setOperatorEnabled op s) = operators s @ [op]
    \<and> count_list (operators (setOperatorEnabled op s)) op = count_list (operators s) op + 1
    \<and> 2 \<le> count_list (operators (setOperatorEnabled op s)) op
    \<and> \<not> distinct (operators (setOperatorEnabled op s))
    \<and> op \<notin> set (operators (setOperatorDisabled op (setOperatorEnabled op s)))
    \<and> operators (setOperatorDisabled op (setOperatorEnabled op s)) =
        filter (\<lambda>x. x \<noteq> op) (operators s)"
proof -
  from assms have "0 < count_list (operators s) op"
    using count_list_0_iff [of "operators s" op] by auto
  with assms show ?thesis
    by (simp add: setOperatorEnabled_def setOperatorDisabled_def)
qed

theorem operators_not_a_set_witness:
  "Addition \<in> set (operators initialState)
   \<and> operators (setOperatorEnabled Addition initialState) = [Addition, Subtraction, Addition]
   \<and> operators (setOperatorDisabled Addition (setOperatorEnabled Addition initialState)) = [Subtraction]"
  using operators_not_a_set [of Addition initialState]
  by (simp add: initialState_def setOperatorEnabled_def setOperatorDisabled_def)

end
